theory Spec2Isabelle
  imports Complex_Main "HOL-Library.Multiset"
begin

section \<open>Data model\<close>

text \<open>
  The engine passes Python dictionaries around. Each dictionary becomes a record with
  one optional field per key that the embedded functions read; \<open>None\<close> stands for an
  absent key (\<open>d.get(k)\<close> giving \<open>None\<close>). Python floats are idealised as reals.
\<close>

record rule =
  rule_id :: "string option"
  rule_type :: "string option"
  rule_text :: "string option"
  rule_severity :: "string option"
  rule_entities :: "string list option"
  rule_sql_condition :: "string option"

record potential_violation =
  pv_type :: "string option"
  pv_table :: "string option"
  pv_column :: "string option"
  pv_columns :: "string list option"
  pv_rule_id :: "string option"
  pv_rule_text :: "string option"
  pv_violation_count :: "int option"
  pv_details :: "string option"
  pv_requires_review :: "bool option"
  pv_error :: "string option"

record violation =
  v_id :: string
  v_scan_id :: "string option"
  v_rule_id :: "string option"
  v_rule_type :: "string option"
  v_rule_text :: "string option"
  v_table :: "string option"
  v_column :: "string option"
  v_columns :: "string list option"
  v_violation_count :: "int option"
  v_details :: "string option"
  v_detected_at :: string
  v_status :: string
  v_requires_review :: bool
  v_severity :: "string option"
  v_risk_score :: "real option"
  v_category :: "string option"
  v_frameworks :: "string list option"

record scan_results =
  sr_scan_id :: "string option"
  sr_tables_scanned :: "string list"
  sr_rules_checked :: nat
  sr_potential_violations :: "potential_violation list"

text \<open>The empty dictionary \<open>{}\<close> that \<open>rules_map.get(rule_id, {})\<close> falls back to.\<close>

definition empty_rule :: rule where
  "empty_rule = \<lparr>rule_id = None, rule_type = None, rule_text = None,
     rule_severity = None, rule_entities = None, rule_sql_condition = None\<rparr>"

text \<open>Truthiness of an optional string: \<open>None\<close> and the empty string are falsy.\<close>

definition truthy :: "string option \<Rightarrow> bool" where
  "truthy s = (case s of None \<Rightarrow> False | Some t \<Rightarrow> t \<noteq> [])"

text \<open>\<open>d.get(k, default)\<close> on an optional field.\<close>

definition get_or :: "'a option \<Rightarrow> 'a \<Rightarrow> 'a" where
  "get_or x d = (case x of None \<Rightarrow> d | Some y \<Rightarrow> y)"

section \<open>Violation engine\<close>

definition SEVERITY_WEIGHTS :: "(string \<times> real) list" where
  "SEVERITY_WEIGHTS =
     [(''critical'', 100), (''high'', 75), (''medium'', 50), (''low'', 25)]"

definition RISK_MULTIPLIERS :: "(string \<times> real) list" where
  "RISK_MULTIPLIERS =
     [(''data_encryption'', 1.5), (''data_retention'', 1.3), (''data_access'', 1.4),
      (''consent'', 1.2), (''age_restriction'', 1.5), (''geographic_restriction'', 1.3),
      (''audit_logging'', 1.0), (''data_masking'', 1.1), (''notification'', 1.2),
      (''other'', 1.0)]"

text \<open>
  Python's \<open>round(x, 2)\<close>: the nearest multiple of 0.01, a tie going to the even
  hundredth. \<open>py_round\<close> is \<open>round(x)\<close> to an integer.
\<close>

definition py_round :: "real \<Rightarrow> int" where
  "py_round x =
     (let f = \<lfloor>x\<rfloor>; d = x - of_int f
      in if d < 1 / 2 then f else if 1 / 2 < d then f + 1
         else if even f then f else f + 1)"

definition py_round2 :: "real \<Rightarrow> real" where
  "py_round2 x = of_int (py_round (x * 100)) / 100"

text \<open>
  \<open>_determine_severity\<close>: the rule's severity when it is truthy, otherwise the part of
  the function below the first \<open>return\<close>, here \<open>severity_by_type\<close>.
\<close>

definition severity_by_type :: "potential_violation \<Rightarrow> string" where
  "severity_by_type pv =
     (let violation_type = get_or (pv_type pv) '''' in
        if violation_type \<in> set [''data_encryption'', ''age_restriction''] then
          (let violation_count = get_or (pv_violation_count pv) 1
           in if violation_count > 100 then ''critical'' else ''high'')
        else if violation_type \<in> set [''data_retention'', ''data_access'',
                                       ''geographic_restriction''] then ''high''
        else if violation_type \<in> set [''consent'', ''data_masking'', ''notification'']
          then ''medium''
        else if violation_type = ''audit_logging'' then ''low''
        else ''medium'')"

definition determine_severity :: "potential_violation \<Rightarrow> rule \<Rightarrow> string" where
  "determine_severity pv rule =
     (case rule_severity rule of
        Some rule_sev \<Rightarrow> if rule_sev \<noteq> [] then rule_sev else severity_by_type pv
      | None \<Rightarrow> severity_by_type pv)"

text \<open>\<open>_calculate_risk_score\<close>.\<close>

definition calculate_risk_score :: "violation \<Rightarrow> real" where
  "calculate_risk_score v =
     (let base_score = get_or (map_of SEVERITY_WEIGHTS (get_or (v_severity v) ''medium'')) 50;
          multiplier = (case v_rule_type v of None \<Rightarrow> 1.0
                        | Some t \<Rightarrow> get_or (map_of RISK_MULTIPLIERS t) 1.0);
          count = get_or (v_violation_count v) 1;
          count_factor = 1 + log 10 (of_int (max count 1)) * 0.1;
          score = base_score * multiplier * count_factor
      in py_round2 (min score 100))"

text \<open>\<open>_categorize_violation\<close>.\<close>

definition categories :: "(string \<times> string) list" where
  "categories =
     [(''data_retention'', ''Data Lifecycle''), (''data_access'', ''Access Control''),
      (''data_encryption'', ''Data Protection''), (''data_masking'', ''Data Protection''),
      (''consent'', ''Privacy Rights''), (''age_restriction'', ''Privacy Rights''),
      (''geographic_restriction'', ''Data Sovereignty''),
      (''audit_logging'', ''Audit & Compliance''), (''notification'', ''Incident Response'')]"

definition categorize_violation :: "violation \<Rightarrow> string" where
  "categorize_violation v =
     (case v_rule_type v of None \<Rightarrow> ''General Compliance''
      | Some t \<Rightarrow> get_or (map_of categories t) ''General Compliance'')"

text \<open>\<open>_map_to_frameworks\<close>: six membership tests, each appending one tag.\<close>

definition map_to_frameworks :: "violation \<Rightarrow> string list" where
  "map_to_frameworks v =
     (let t = v_rule_type v;
          tag = (\<lambda>types name. if t \<in> Some ` set types then [name] else [])
      in tag [''consent'', ''data_retention'', ''geographic_restriction'', ''data_access'',
              ''notification''] ''GDPR''
       @ tag [''data_encryption'', ''data_access'', ''audit_logging'', ''data_retention'']
             ''HIPAA''
       @ tag [''consent'', ''data_access'', ''data_retention''] ''CCPA''
       @ tag [''data_encryption'', ''data_masking'', ''data_access'', ''audit_logging'']
             ''PCI-DSS''
       @ tag [''audit_logging'', ''data_access''] ''SOX''
       @ tag [''age_restriction''] ''COPPA'')"

text \<open>
  \<open>rules_map = {r['id']: r for r in rules if 'id' in r}\<close>: a later rule with the same
  id replaces an earlier one.
\<close>

definition rules_map :: "rule list \<Rightarrow> (string \<rightharpoonup> rule)" where
  "rules_map rules =
     foldl (\<lambda>m r. case rule_id r of None \<Rightarrow> m | Some i \<Rightarrow> m(i \<mapsto> r)) Map.empty rules"

definition lookup_rule :: "rule list \<Rightarrow> string option \<Rightarrow> rule" where
  "lookup_rule rules rid =
     (case rid of None \<Rightarrow> empty_rule | Some i \<Rightarrow> get_or (rules_map rules i) empty_rule)"

text \<open>
  The body of the loop of \<open>detect\<close> for one hit that is not a scan error. The fresh
  UUID and the clock reading are inputs, \<open>uid\<close> and \<open>now\<close>.
\<close>

definition new_violation ::
  "string option \<Rightarrow> rule \<Rightarrow> potential_violation \<Rightarrow> string \<Rightarrow> string \<Rightarrow> violation" where
  "new_violation scan_id rule pv uid now =
     \<lparr>v_id = uid, v_scan_id = scan_id, v_rule_id = pv_rule_id pv, v_rule_type = pv_type pv,
      v_rule_text = (if truthy (pv_rule_text pv) then pv_rule_text pv else rule_text rule),
      v_table = pv_table pv, v_column = pv_column pv, v_columns = pv_columns pv,
      v_violation_count = Some (get_or (pv_violation_count pv) 1),
      v_details = pv_details pv, v_detected_at = now, v_status = ''open'',
      v_requires_review = get_or (pv_requires_review pv) False,
      v_severity = None, v_risk_score = None, v_category = None, v_frameworks = None\<rparr>"

definition score_violation ::
  "string option \<Rightarrow> rule list \<Rightarrow> potential_violation \<Rightarrow> string \<times> string \<Rightarrow> violation" where
  "score_violation scan_id rules pv stamp =
     (let rule = lookup_rule rules (pv_rule_id pv);
          v0 = new_violation scan_id rule pv (fst stamp) (snd stamp);
          v1 = v0\<lparr>v_severity := Some (determine_severity pv rule)\<rparr>;
          v2 = v1\<lparr>v_risk_score := Some (calculate_risk_score v1)\<rparr>;
          v3 = v2\<lparr>v_category := Some (categorize_violation v2)\<rparr>
      in v3\<lparr>v_frameworks := Some (map_to_frameworks v3)\<rparr>)"

text \<open>
  The loop of \<open>detect\<close> over the hits, in discovery order; \<open>fresh k\<close> is the UUID and
  timestamp drawn at the \<open>k\<close>-th hit.
\<close>

fun detect_loop ::
  "string option \<Rightarrow> rule list \<Rightarrow> (nat \<Rightarrow> string \<times> string) \<Rightarrow> nat
     \<Rightarrow> potential_violation list \<Rightarrow> violation list" where
  "detect_loop scan_id rules fresh k [] = []"
| "detect_loop scan_id rules fresh k (pv # pvs) =
     (if pv_type pv = Some ''scan_error'' then detect_loop scan_id rules fresh (Suc k) pvs
      else score_violation scan_id rules pv (fresh k)
             # detect_loop scan_id rules fresh (Suc k) pvs)"

text \<open>
  \<open>violations.sort(key=lambda v: v.get('risk_score', 0), reverse=True)\<close>. Python's
  sort is stable and stays so under \<open>reverse=True\<close>: it is the stable sort by
  descending key, here the stable insertion sort on the negated key.
\<close>

definition sort_key_of :: "violation \<Rightarrow> real" where
  "sort_key_of v = get_or (v_risk_score v) 0"

definition sort_by_risk :: "violation list \<Rightarrow> violation list" where
  "sort_by_risk vs = sort_key (\<lambda>v. - sort_key_of v) vs"

record engine =
  detected_violations :: "violation list"

definition detect ::
  "engine \<Rightarrow> (nat \<Rightarrow> string \<times> string) \<Rightarrow> scan_results \<Rightarrow> rule list
     \<Rightarrow> violation list \<times> engine" where
  "detect eng fresh scan_res rules =
     (let violations = sort_by_risk
            (detect_loop (sr_scan_id scan_res) rules fresh 0
               (sr_potential_violations scan_res))
      in (violations, eng\<lparr>detected_violations := detected_violations eng @ violations\<rparr>))"

section \<open>Database scanner\<close>

subsection \<open>Strings\<close>

text \<open>
  \<open>str.lower\<close>, \<open>str.isdigit\<close> and the substring test \<open>p in s\<close>. A \<open>char\<close> is one
  character of the Python string, its code point below 256; text with a character
  beyond that is outside the model. Among these code points the upper-case letters are
  \<open>A\<close> to \<open>Z\<close> and U+00C0 to U+00DE without U+00D7, each 32 below its lower-case
  letter, and the digits of \<open>str.isdigit\<close> are \<open>0\<close> to \<open>9\<close> and the superscripts
  U+00B2, U+00B3 and U+00B9.
\<close>

definition lower_char :: "char \<Rightarrow> char" where
  "lower_char c =
     (let n = (of_char c :: nat)
      in if (65 \<le> n \<and> n \<le> 90) \<or> (192 \<le> n \<and> n \<le> 214) \<or> (216 \<le> n \<and> n \<le> 222)
         then char_of (n + 32) else c)"

definition lower :: "string \<Rightarrow> string" where
  "lower s = map lower_char s"

definition is_digit_char :: "char \<Rightarrow> bool" where
  "is_digit_char c =
     (let n = (of_char c :: nat) in (48 \<le> n \<and> n \<le> 57) \<or> n = 178 \<or> n = 179 \<or> n = 185)"

definition isdigit :: "string \<Rightarrow> bool" where
  "isdigit s = (s \<noteq> [] \<and> list_all is_digit_char s)"

fun starts_with :: "string \<Rightarrow> string \<Rightarrow> bool" where
  "starts_with s [] = True"
| "starts_with [] (p # ps) = False"
| "starts_with (c # cs) (p # ps) = (c = p \<and> starts_with cs ps)"

fun contains :: "string \<Rightarrow> string \<Rightarrow> bool" where
  "contains [] p = (p = [])"
| "contains (c # cs) p = (starts_with (c # cs) p \<or> contains cs p)"

subsection \<open>Column matcher\<close>

definition sensitive_patterns :: "(string \<times> string list) list" where
  "sensitive_patterns =
     [(''data_encryption'', [''password'', ''ssn'', ''credit_card'', ''account_number'',
                             ''secret'', ''token'', ''key'']),
      (''data_masking'', [''email'', ''phone'', ''ssn'', ''credit_card'', ''account'',
                          ''address'']),
      (''consent'', [''email'', ''marketing'', ''consent'', ''opted'']),
      (''age_restriction'', [''birthdate'', ''birth_date'', ''dob'', ''date_of_birth'',
                             ''age'']),
      (''geographic_restriction'', [''country'', ''region'', ''location'', ''address'',
                                    ''city'', ''state''])]"

text \<open>\<open>entity.split('.', 1)[1]\<close>: what follows the first dot.\<close>

definition after_first_dot :: "string \<Rightarrow> string" where
  "after_first_dot entity = tl (dropWhile (\<lambda>c. c \<noteq> CHR ''.'') entity)"

text \<open>The loop over the rule's entities; \<open>applicable\<close> is the list built so far.\<close>

fun entity_loop :: "string list \<Rightarrow> string list \<Rightarrow> string list \<Rightarrow> string list" where
  "entity_loop columns [] applicable = applicable"
| "entity_loop columns (entity # entities) applicable =
     (if CHR ''.'' \<in> set entity then
        (let col = after_first_dot entity
         in if col \<in> set columns then entity_loop columns entities (applicable @ [col])
            else entity_loop columns entities applicable)
      else if entity \<in> set columns then entity_loop columns entities (applicable @ [entity])
      else entity_loop columns entities applicable)"

text \<open>The inner loop over the patterns, for one column, and the outer loop over the columns.\<close>

fun pattern_loop :: "string \<Rightarrow> string list \<Rightarrow> string list \<Rightarrow> string list" where
  "pattern_loop col [] applicable = applicable"
| "pattern_loop col (pattern # patterns) applicable =
     pattern_loop col patterns
       (if contains (lower col) pattern \<and> col \<notin> set applicable then applicable @ [col]
        else applicable)"

fun column_loop :: "string list \<Rightarrow> string list \<Rightarrow> string list \<Rightarrow> string list" where
  "column_loop patterns [] applicable = applicable"
| "column_loop patterns (col # cols) applicable =
     column_loop patterns cols (pattern_loop col patterns applicable)"

definition find_applicable_columns :: "rule \<Rightarrow> string list \<Rightarrow> string list" where
  "find_applicable_columns rule columns =
     (let applicable = entity_loop columns (get_or (rule_entities rule) []) [];
          patterns = get_or (map_of sensitive_patterns (get_or (rule_type rule) [])) []
      in column_loop patterns columns applicable)"

subsection \<open>Backend and checkers\<close>

text \<open>
  An exception carries its message. A result row is the dictionary of one row, keyed by
  column name; a cell is \<open>None\<close> for SQL \<open>NULL\<close> and otherwise the text \<open>str\<close> gives for
  it, so \<open>py_str\<close> is \<open>str\<close> on a cell. The backend's \<open>execute_query\<close> takes the query
  text and returns rows or raises.
\<close>

datatype exn = Exception string

type_synonym row = "(string \<times> string option) list"

definition py_str :: "string option \<Rightarrow> string" where
  "py_str cell = (case cell of None \<Rightarrow> ''None'' | Some text \<Rightarrow> text)"

type_synonym backend = "string \<Rightarrow> exn + row list"

definition quoted :: "string \<Rightarrow> string" where
  "quoted s = CHR 0x22 # s @ [CHR 0x22]"

definition encryption_query :: "string \<Rightarrow> string \<Rightarrow> string" where
  "encryption_query table col =
     ''SELECT '' @ quoted col @ '' FROM '' @ quoted table @ '' WHERE '' @ quoted col
       @ '' IS NOT NULL LIMIT 10''"

text \<open>The \<open>if\<close>/\<open>elif\<close> chain of \<open>_check_data_encryption\<close> that sets \<open>is_plaintext\<close>.\<close>

definition is_plaintext :: "string \<Rightarrow> string \<Rightarrow> bool" where
  "is_plaintext col val =
     (if contains (lower col) ''ssn'' \<and> length val = 9 \<and> isdigit val then True
      else if contains (lower col) ''credit'' \<and> length val \<in> set [15, 16] \<and> isdigit val
        then True
      else if contains (lower col) ''password'' \<and> length val < 60 then True
      else False)"

text \<open>
  The loop over the sampled rows of one column. The result says whether the column was
  flagged, or gives the \<open>KeyError\<close> of \<open>row[col]\<close>; the first component counts the rows
  the loop looked at.
\<close>

fun sample_loop :: "string \<Rightarrow> row list \<Rightarrow> nat \<times> (exn + bool)" where
  "sample_loop col [] = (0, Inr False)"
| "sample_loop col (r # rows) =
     (case map_of r col of
        None \<Rightarrow> (1, Inl (Exception ''KeyError''))
      | Some cell \<Rightarrow>
          if is_plaintext col (py_str cell) then (1, Inr True)
          else (let (n, res) = sample_loop col rows in (Suc n, res)))"

definition encryption_hit :: "string \<Rightarrow> rule \<Rightarrow> string \<Rightarrow> potential_violation" where
  "encryption_hit table rule col =
     \<lparr>pv_type = Some ''data_encryption'', pv_table = Some table, pv_column = Some col,
      pv_columns = None, pv_rule_id = rule_id rule, pv_rule_text = rule_text rule,
      pv_violation_count = None,
      pv_details = Some (''Column '' @ col
                          @ '' appears to contain unencrypted sensitive data''),
      pv_requires_review = None, pv_error = None\<rparr>"

text \<open>
  One column of \<open>_check_data_encryption\<close>: the query, the loop, and the \<open>except\<close> that
  drops any exception of either.
\<close>

definition check_encryption_column ::
  "backend \<Rightarrow> string \<Rightarrow> rule \<Rightarrow> string \<Rightarrow> potential_violation list" where
  "check_encryption_column execute_query table rule col =
     (case execute_query (encryption_query table col) of
        Inl e \<Rightarrow> []
      | Inr result \<Rightarrow>
          (case snd (sample_loop col result) of
             Inl e \<Rightarrow> []
           | Inr flagged \<Rightarrow> if flagged then [encryption_hit table rule col] else []))"

fun check_data_encryption ::
  "backend \<Rightarrow> string \<Rightarrow> rule \<Rightarrow> string list \<Rightarrow> potential_violation list" where
  "check_data_encryption execute_query table rule [] = []"
| "check_data_encryption execute_query table rule (col # columns) =
     check_encryption_column execute_query table rule col
       @ check_data_encryption execute_query table rule columns"

text \<open>
  What a query text asks of the database, read off the text itself: the number after a
  closing \<open>LIMIT\<close>, and whether a \<open>WHERE\<close> clause demands a column to be non-null.
  \<open>answers_query\<close> says that rows are an answer a database may give to the text: no more
  rows than the limit, and no \<open>NULL\<close> in a column the text demands to be non-null.
\<close>

definition is_ascii_digit :: "char \<Rightarrow> bool" where
  "is_ascii_digit c = (let n = (of_char c :: nat) in 48 \<le> n \<and> n \<le> 57)"

definition decimal :: "string \<Rightarrow> nat" where
  "decimal ds = foldl (\<lambda>n d. 10 * n + (of_char d - 48)) 0 ds"

definition sql_limit :: "string \<Rightarrow> nat option" where
  "sql_limit query =
     (let r = rev query; ds = takeWhile is_ascii_digit r; rest = dropWhile is_ascii_digit r
      in if ds \<noteq> [] \<and> starts_with rest (rev '' LIMIT '') then Some (decimal (rev ds))
         else None)"

definition sql_not_null :: "string \<Rightarrow> string \<Rightarrow> bool" where
  "sql_not_null query col = contains query (''WHERE '' @ quoted col @ '' IS NOT NULL'')"

definition answers_query :: "string \<Rightarrow> row list \<Rightarrow> bool" where
  "answers_query query rows =
     ((case sql_limit query of None \<Rightarrow> True | Some n \<Rightarrow> length rows \<le> n)
      \<and> (\<forall>r \<in> set rows. \<forall>(c, cell) \<in> set r. sql_not_null query c \<longrightarrow> cell \<noteq> None))"

subsection \<open>Scan coordinator\<close>

text \<open>
  The checkers reach the database, so each of them is an input here: a function of the
  arguments the scanner passes, returning its hits or raising. \<open>checkers_of\<close> puts
  \<open>check_data_encryption\<close>, defined above over a backend, in its place; it never raises.
\<close>

record checkers =
  check_data_retention_of ::
    "string \<Rightarrow> rule \<Rightarrow> string list \<Rightarrow> nat \<Rightarrow> exn + potential_violation list"
  check_data_encryption_of ::
    "string \<Rightarrow> rule \<Rightarrow> string list \<Rightarrow> exn + potential_violation list"
  check_data_masking_of ::
    "string \<Rightarrow> rule \<Rightarrow> string list \<Rightarrow> nat \<Rightarrow> exn + potential_violation list"
  check_data_access_of ::
    "string \<Rightarrow> rule \<Rightarrow> string list \<Rightarrow> exn + potential_violation list"
  check_age_restriction_of ::
    "string \<Rightarrow> rule \<Rightarrow> string list \<Rightarrow> nat \<Rightarrow> exn + potential_violation list"
  check_geographic_restriction_of ::
    "string \<Rightarrow> rule \<Rightarrow> string list \<Rightarrow> nat \<Rightarrow> exn + potential_violation list"
  check_audit_logging_of ::
    "string \<Rightarrow> rule \<Rightarrow> string list \<Rightarrow> exn + potential_violation list"
  check_sql_condition_of ::
    "string \<Rightarrow> rule \<Rightarrow> nat \<Rightarrow> exn + potential_violation list"

definition checkers_of :: "backend \<Rightarrow> checkers \<Rightarrow> checkers" where
  "checkers_of execute_query chk =
     chk\<lparr>check_data_encryption_of :=
           (\<lambda>table rule columns. Inr (check_data_encryption execute_query table rule columns))\<rparr>"

text \<open>The \<open>if\<close>/\<open>elif\<close> chain inside the \<open>try\<close> of \<open>_check_rule_against_table\<close>.\<close>

definition dispatch ::
  "checkers \<Rightarrow> string \<Rightarrow> rule \<Rightarrow> string list \<Rightarrow> string list \<Rightarrow> nat
     \<Rightarrow> exn + potential_violation list" where
  "dispatch chk table rule columns applicable_columns sample_size =
     (let t = get_or (rule_type rule) ''other'' in
      if t = ''data_retention'' then check_data_retention_of chk table rule columns sample_size
      else if t = ''data_encryption'' then
        check_data_encryption_of chk table rule applicable_columns
      else if t = ''data_masking'' then
        check_data_masking_of chk table rule applicable_columns sample_size
      else if t = ''data_access'' then check_data_access_of chk table rule columns
      else if t = ''age_restriction'' then
        check_age_restriction_of chk table rule columns sample_size
      else if t = ''geographic_restriction'' then
        check_geographic_restriction_of chk table rule columns sample_size
      else if t = ''audit_logging'' then check_audit_logging_of chk table rule columns
      else if truthy (rule_sql_condition rule) then
        check_sql_condition_of chk table rule sample_size
      else Inr [])"

definition scan_error :: "string \<Rightarrow> rule \<Rightarrow> exn \<Rightarrow> potential_violation" where
  "scan_error table rule e =
     \<lparr>pv_type = Some ''scan_error'', pv_table = Some table, pv_column = None,
      pv_columns = None, pv_rule_id = rule_id rule, pv_rule_text = None,
      pv_violation_count = None, pv_details = None, pv_requires_review = None,
      pv_error = Some (case e of Exception msg \<Rightarrow> msg)\<rparr>"

text \<open>
  \<open>_check_rule_against_table\<close>. \<open>violations\<close> is empty when the \<open>try\<close> starts and is
  extended only after the checker has returned, so the result is either the checker's
  hits or the single entry the \<open>except\<close> appends.
\<close>

definition check_rule_against_table ::
  "checkers \<Rightarrow> string \<Rightarrow> rule \<Rightarrow> string list \<Rightarrow> nat \<Rightarrow> potential_violation list" where
  "check_rule_against_table chk table rule columns sample_size =
     (let applicable_columns = find_applicable_columns rule columns in
      if applicable_columns = [] \<and> \<not> truthy (rule_sql_condition rule) then []
      else (case dispatch chk table rule columns applicable_columns sample_size of
              Inr hits \<Rightarrow> hits
            | Inl e \<Rightarrow> [scan_error table rule e]))"

text \<open>\<open>_scan_table\<close>: the loop over the rules.\<close>

fun scan_table ::
  "checkers \<Rightarrow> string \<Rightarrow> rule list \<Rightarrow> string list \<Rightarrow> nat \<Rightarrow> potential_violation list" where
  "scan_table chk table [] columns sample_size = []"
| "scan_table chk table (rule # rules) columns sample_size =
     check_rule_against_table chk table rule columns sample_size
       @ scan_table chk table rules columns sample_size"

text \<open>
  \<open>scan\<close>. The connector gives the table names and, per table, the column names of its
  schema (\<open>schema.get(table, {}).get('columns', [])\<close>); either call may raise, which
  \<open>scan\<close> does not catch. The loop over the tables skips the unknown ones and returns
  the tables scanned with the hits.
\<close>

record connector =
  get_tables :: "exn + string list"
  get_full_schema :: "exn + (string \<rightharpoonup> string list)"

fun table_loop ::
  "checkers \<Rightarrow> string list \<Rightarrow> (string \<rightharpoonup> string list) \<Rightarrow> rule list \<Rightarrow> nat
     \<Rightarrow> string list \<Rightarrow> string list \<times> potential_violation list" where
  "table_loop chk all_tables schema rules sample_size [] = ([], [])"
| "table_loop chk all_tables schema rules sample_size (table # tables) =
     (let (scanned, hits) = table_loop chk all_tables schema rules sample_size tables in
      if table \<notin> set all_tables then (scanned, hits)
      else (table # scanned,
            scan_table chk table rules (get_or (schema table) []) sample_size @ hits))"

definition scan ::
  "connector \<Rightarrow> checkers \<Rightarrow> string \<Rightarrow> rule list \<Rightarrow> string list option \<Rightarrow> nat
     \<Rightarrow> exn + scan_results" where
  "scan conn chk scan_id rules tables sample_size =
     (case get_tables conn of
        Inl e \<Rightarrow> Inl e
      | Inr all_tables \<Rightarrow>
          (let tables_to_scan =
                 (case tables of None \<Rightarrow> all_tables
                  | Some ts \<Rightarrow> if ts \<noteq> [] then ts else all_tables)
           in case get_full_schema conn of
                Inl e \<Rightarrow> Inl e
              | Inr schema \<Rightarrow>
                  (let (scanned, hits) =
                         table_loop chk all_tables schema rules sample_size tables_to_scan
                   in Inr \<lparr>sr_scan_id = Some scan_id, sr_tables_scanned = scanned,
                           sr_rules_checked = length rules,
                           sr_potential_violations = hits\<rparr>)))"

section \<open>The risk score as the specification words it\<close>

text \<open>
  The formula of the specification, written from its words, to be compared with
  \<open>calculate_risk_score\<close>: the cap is applied after the rounding.
\<close>

definition spec_base :: "string \<Rightarrow> real" where
  "spec_base s =
     (if s = ''critical'' then 100 else if s = ''high'' then 75
      else if s = ''medium'' then 50 else if s = ''low'' then 25 else 50)"

definition spec_type_multiplier :: "string \<Rightarrow> real" where
  "spec_type_multiplier t =
     (if t = ''data_encryption'' then 1.5 else if t = ''data_retention'' then 1.3
      else if t = ''data_access'' then 1.4 else if t = ''consent'' then 1.2
      else if t = ''age_restriction'' then 1.5
      else if t = ''geographic_restriction'' then 1.3
      else if t = ''audit_logging'' then 1.0 else if t = ''data_masking'' then 1.1
      else if t = ''notification'' then 1.2 else 1.0)"

definition spec_risk_score :: "string \<Rightarrow> string \<Rightarrow> int \<Rightarrow> real" where
  "spec_risk_score s t n =
     min 100 (py_round2 (spec_base s * spec_type_multiplier t
                          * (1 + log 10 (of_int (max n 1)) * 0.1)))"

text \<open>The score before the cap and the rounding, and its three factors.\<close>

definition raw_score :: "violation \<Rightarrow> real" where
  "raw_score v =
     spec_base (get_or (v_severity v) ''medium'')
       * spec_type_multiplier (get_or (v_rule_type v) ''other'')
       * (1 + log 10 (of_int (max (get_or (v_violation_count v) 1) 1)) * 0.1)"

section \<open>Example inputs\<close>

definition example_hit :: "string \<Rightarrow> int option \<Rightarrow> potential_violation" where
  "example_hit t n =
     \<lparr>pv_type = Some t, pv_table = Some ''users'', pv_column = Some ''ssn'',
      pv_columns = None, pv_rule_id = Some ''R1'', pv_rule_text = None,
      pv_violation_count = n, pv_details = None, pv_requires_review = None,
      pv_error = None\<rparr>"

definition example_violation :: "string \<Rightarrow> string \<Rightarrow> int \<Rightarrow> violation" where
  "example_violation s t n =
     (new_violation None empty_rule (example_hit t (Some n)) ''id'' ''now'')
       \<lparr>v_severity := Some s\<rparr>"

definition example_hits :: "potential_violation list" where
  "example_hits =
     [example_hit ''audit_logging'' None,
      scan_error ''users'' empty_rule (Exception ''boom''),
      example_hit ''consent'' None,
      example_hit ''data_access'' (Some 10),
      example_hit ''notification'' None]"

definition example_scan :: scan_results where
  "example_scan =
     \<lparr>sr_scan_id = Some ''S1'', sr_tables_scanned = [''users''], sr_rules_checked = 0,
      sr_potential_violations = example_hits\<rparr>"

definition example_fresh :: "nat \<Rightarrow> string \<times> string" where
  "example_fresh k = (replicate (Suc k) CHR ''u'', ''now'')"

definition example_engine :: engine where
  "example_engine = \<lparr>detected_violations = []\<rparr>"

text \<open>Checkers that all raise, an encryption rule, and a backend with one table.\<close>

definition raising_checkers :: checkers where
  "raising_checkers =
     \<lparr>check_data_retention_of = (\<lambda>table rule columns n. Inl (Exception ''boom'')),
      check_data_encryption_of = (\<lambda>table rule columns. Inl (Exception ''boom'')),
      check_data_masking_of = (\<lambda>table rule columns n. Inl (Exception ''boom'')),
      check_data_access_of = (\<lambda>table rule columns. Inl (Exception ''boom'')),
      check_age_restriction_of = (\<lambda>table rule columns n. Inl (Exception ''boom'')),
      check_geographic_restriction_of = (\<lambda>table rule columns n. Inl (Exception ''boom'')),
      check_audit_logging_of = (\<lambda>table rule columns. Inl (Exception ''boom'')),
      check_sql_condition_of = (\<lambda>table rule n. Inl (Exception ''boom''))\<rparr>"

definition example_encryption_rule :: rule where
  "example_encryption_rule =
     empty_rule\<lparr>rule_id := Some ''R1'', rule_type := Some ''data_encryption''\<rparr>"

definition example_other_rule :: rule where
  "example_other_rule = empty_rule\<lparr>rule_id := Some ''R2'', rule_type := Some ''other''\<rparr>"

definition example_rows :: "row list" where
  "example_rows =
     [ [(''ssn'', Some ''123456789'')], [(''ssn'', Some ''987654321'')],
       [(''ssn'', Some ''n/a'')] ]"

definition example_backend :: backend where
  "example_backend query =
     (if query = encryption_query ''users'' ''ssn'' then Inr example_rows
      else Inl (Exception ''no such column''))"

definition example_id_backend :: backend where
  "example_id_backend query =
     (if query = encryption_query ''users'' ''id'' then Inr [ [(''id'', Some ''123456789'')] ]
      else Inl (Exception ''no such column''))"

definition example_connector :: connector where
  "example_connector =
     \<lparr>get_tables = Inr [''users''],
      get_full_schema = Inr [''users'' \<mapsto> [''id'', ''ssn''] ]\<rparr>"

section \<open>Rounding\<close>

lemma py_round_lower: "\<lfloor>x\<rfloor> \<le> py_round x"
  by (simp add: py_round_def Let_def)

lemma py_round_upper: "py_round x \<le> \<lfloor>x\<rfloor> + 1"
  by (simp add: py_round_def Let_def)

lemma py_round_mono:
  assumes "x \<le> y"
  shows "py_round x \<le> py_round y"
proof (cases "\<lfloor>x\<rfloor> = \<lfloor>y\<rfloor>")
  case True
  with assms show ?thesis by (auto simp: py_round_def Let_def)
next
  case False
  moreover from assms have "\<lfloor>x\<rfloor> \<le> \<lfloor>y\<rfloor>" by (rule floor_mono)
  ultimately have "\<lfloor>x\<rfloor> < \<lfloor>y\<rfloor>" by simp
  with py_round_upper[of x] py_round_lower[of y] show ?thesis by linarith
qed

lemma py_round_of_int: "py_round (of_int n) = n"
  by (simp add: py_round_def)

lemma py_round2_mono: "x \<le> y \<Longrightarrow> py_round2 x \<le> py_round2 y"
  by (simp add: py_round2_def py_round_mono divide_right_mono)

lemma py_round2_int: "py_round2 (of_int n) = of_int n"
proof -
  have "py_round (of_int n * 100) = n * 100"
    using py_round_of_int[of "n * 100"] by simp
  then show ?thesis by (simp add: py_round2_def)
qed

lemma py_round2_100: "py_round2 100 = 100"
  using py_round2_int[of 100] by simp

lemma py_round2_25: "py_round2 25 = 25"
  using py_round2_int[of 25] by simp

lemma py_round2_0: "py_round2 0 = 0"
  using py_round2_int[of 0] by simp

lemma py_round2_min: "py_round2 (min x 100) = min 100 (py_round2 x)"
proof (cases "x \<le> 100")
  case True
  then have "py_round2 x \<le> 100" using py_round2_mono[of x 100] py_round2_100 by simp
  with True show ?thesis by (simp add: min_def)
next
  case False
  then have "100 \<le> py_round2 x" using py_round2_mono[of 100 x] py_round2_100 by simp
  with False show ?thesis by (simp add: min_def py_round2_100)
qed

section \<open>The score tables\<close>

lemma get_or_Some: "get_or (Some x) d = x"
  by (simp add: get_or_def)

lemma get_or_None: "get_or None d = d"
  by (simp add: get_or_def)

lemma base_eq: "get_or (map_of SEVERITY_WEIGHTS s) 50 = spec_base s"
  by (simp add: SEVERITY_WEIGHTS_def spec_base_def get_or_def)

lemma mult_eq: "get_or (map_of RISK_MULTIPLIERS t) 1 = spec_type_multiplier t"
  by (simp add: RISK_MULTIPLIERS_def spec_type_multiplier_def get_or_def)

lemma spec_base_bounds: "25 \<le> spec_base s \<and> spec_base s \<le> 100"
  by (simp add: spec_base_def)

lemma spec_type_multiplier_ge_1: "1 \<le> spec_type_multiplier t"
  by (simp add: spec_type_multiplier_def)

lemma calculate_risk_score_raw: "calculate_risk_score v = py_round2 (min (raw_score v) 100)"
proof (cases "v_rule_type v")
  case None
  then show ?thesis
    by (simp add: calculate_risk_score_def raw_score_def Let_def base_eq get_or_None
          spec_type_multiplier_def)
next
  case (Some t)
  then show ?thesis
    by (simp add: calculate_risk_score_def raw_score_def Let_def base_eq get_or_Some mult_eq)
qed

lemma count_factor_ge_1: "1 \<le> 1 + log 10 (of_int (max n 1)) * (0.1::real)"
proof -
  have "(1::real) \<le> of_int (max n 1)" by simp
  then have "0 \<le> log 10 (of_int (max n 1) :: real)" by (simp add: zero_le_log_cancel_iff)
  then show ?thesis by simp
qed

lemma count_factor_mono:
  assumes "n1 \<le> n2"
  shows "1 + log 10 (of_int (max n1 1)) * (0.1::real) \<le> 1 + log 10 (of_int (max n2 1)) * 0.1"
proof -
  have "(0::real) < of_int (max n1 1)" by simp
  moreover have "(of_int (max n1 1) :: real) \<le> of_int (max n2 1)" using assms by simp
  ultimately have "log 10 (of_int (max n1 1) :: real) \<le> log 10 (of_int (max n2 1))"
    by (simp add: log_le_cancel_iff)
  then show ?thesis by simp
qed

lemma raw_score_ge_25: "25 \<le> raw_score v"
proof -
  let ?b = "spec_base (get_or (v_severity v) ''medium'')"
  let ?m = "spec_type_multiplier (get_or (v_rule_type v) ''other'')"
  let ?c = "1 + log 10 (of_int (max (get_or (v_violation_count v) 1) 1)) * (0.1::real)"
  have b: "25 \<le> ?b" using spec_base_bounds by simp
  have m: "1 \<le> ?m" by (rule spec_type_multiplier_ge_1)
  have c: "1 \<le> ?c" by (rule count_factor_ge_1)
  have b0: "0 \<le> ?b" using b by simp
  have bm: "25 * 1 \<le> ?b * ?m" using b m b0 by (rule mult_mono) simp
  have bm0: "0 \<le> ?b * ?m" using bm by simp
  have "25 * 1 * 1 \<le> ?b * ?m * ?c" using bm c bm0 by (rule mult_mono) simp
  then show ?thesis by (simp add: raw_score_def)
qed

lemma raw_score_mono:
  assumes "n1 \<le> n2"
  shows "raw_score (v\<lparr>v_violation_count := Some n1\<rparr>)
           \<le> raw_score (v\<lparr>v_violation_count := Some n2\<rparr>)"
proof -
  let ?b = "spec_base (get_or (v_severity v) ''medium'')"
  let ?m = "spec_type_multiplier (get_or (v_rule_type v) ''other'')"
  have "0 \<le> ?b" using spec_base_bounds[of "get_or (v_severity v) ''medium''"] by simp
  moreover have "0 \<le> ?m"
    using spec_type_multiplier_ge_1[of "get_or (v_rule_type v) ''other''"] by simp
  ultimately have "0 \<le> ?b * ?m" by simp
  then have "?b * ?m * (1 + log 10 (of_int (max n1 1)) * 0.1)
               \<le> ?b * ?m * (1 + log 10 (of_int (max n2 1)) * 0.1)"
    using count_factor_mono[OF assms] by (intro mult_left_mono) simp_all
  then show ?thesis by (simp add: raw_score_def get_or_def)
qed

lemma risk_score_bounds: "25 \<le> calculate_risk_score v \<and> calculate_risk_score v \<le> 100"
proof -
  have "25 \<le> min (raw_score v) 100" using raw_score_ge_25[of v] by simp
  then have "py_round2 25 \<le> py_round2 (min (raw_score v) 100)" by (rule py_round2_mono)
  moreover have "py_round2 (min (raw_score v) 100) \<le> py_round2 100"
    by (rule py_round2_mono) simp
  ultimately show ?thesis
    by (simp add: calculate_risk_score_raw py_round2_25 py_round2_100)
qed

section \<open>The example inputs\<close>

lemma example_violation_fields:
  "v_severity (example_violation s t n) = Some s"
  "v_rule_type (example_violation s t n) = Some t"
  "v_violation_count (example_violation s t n) = Some n"
  by (simp_all add: example_violation_def new_violation_def example_hit_def get_or_def)

section \<open>The detection loop\<close>

lemma detect_loop_enumerate:
  "detect_loop sid rules fresh k pvs =
     map (\<lambda>(i, pv). score_violation sid rules pv (fresh i))
       (filter (\<lambda>(i, pv). pv_type pv \<noteq> Some ''scan_error'') (enumerate k pvs))"
  by (induction pvs arbitrary: k) simp_all

lemma length_detect_loop:
  "length (detect_loop sid rules fresh k pvs) =
     length (filter (\<lambda>pv. pv_type pv \<noteq> Some ''scan_error'') pvs)"
  by (induction pvs arbitrary: k) simp_all

lemma score_violation_risk:
  "v_risk_score (score_violation sid rules pv stamp) =
     Some (calculate_risk_score
             ((new_violation sid (lookup_rule rules (pv_rule_id pv)) pv (fst stamp) (snd stamp))
                \<lparr>v_severity := Some (determine_severity pv (lookup_rule rules (pv_rule_id pv)))\<rparr>))"
  by (simp add: score_violation_def Let_def)

lemma score_violation_risk_bounds:
  "\<exists>r. v_risk_score (score_violation sid rules pv stamp) = Some r \<and> 25 \<le> r \<and> r \<le> 100"
  by (simp add: score_violation_risk risk_score_bounds)

lemma detect_loop_risk_bounds:
  "\<forall>v \<in> set (detect_loop sid rules fresh k pvs).
     \<exists>r. v_risk_score v = Some r \<and> 25 \<le> r \<and> r \<le> 100"
  by (induction pvs arbitrary: k) (simp_all add: score_violation_risk_bounds)

lemma set_sort_by_risk: "set (sort_by_risk vs) = set vs"
  by (simp add: sort_by_risk_def)

lemma fst_detect:
  "fst (detect eng fresh sr rules) =
     sort_by_risk (detect_loop (sr_scan_id sr) rules fresh 0 (sr_potential_violations sr))"
  by (simp add: detect_def Let_def)

lemma score_example:
  "calculate_risk_score ((new_violation sid empty_rule (example_hit t n) u d)\<lparr>v_severity := Some s\<rparr>)
     = py_round2 (min (spec_base s * spec_type_multiplier t * (1 + log 10 (of_int (max (get_or n 1) 1)) * 0.1)) 100)"
  by (simp add: calculate_risk_score_raw raw_score_def new_violation_def example_hit_def get_or_def)

lemma lookup_nil: "lookup_rule [] rid = empty_rule"
  by (simp add: lookup_rule_def rules_map_def get_or_def split: option.splits)

lemma ex_risk_audit:
  "v_risk_score (score_violation sid [] (example_hit ''audit_logging'' None) st) = Some 25"
  by (simp add: score_violation_risk lookup_nil score_example)
    (simp add: determine_severity_def empty_rule_def severity_by_type_def example_hit_def get_or_def
        spec_base_def spec_type_multiplier_def py_round2_def py_round_def)

lemma ex_risk_consent:
  "v_risk_score (score_violation sid [] (example_hit ''consent'' None) st) = Some 60"
  by (simp add: score_violation_risk lookup_nil score_example)
    (simp add: determine_severity_def empty_rule_def severity_by_type_def example_hit_def get_or_def
        spec_base_def spec_type_multiplier_def py_round2_def py_round_def)

lemma ex_risk_notification:
  "v_risk_score (score_violation sid [] (example_hit ''notification'' None) st) = Some 60"
  by (simp add: score_violation_risk lookup_nil score_example)
    (simp add: determine_severity_def empty_rule_def severity_by_type_def example_hit_def get_or_def
        spec_base_def spec_type_multiplier_def py_round2_def py_round_def)

lemma ex_risk_access:
  "v_risk_score (score_violation sid [] (example_hit ''data_access'' (Some 10)) st) = Some 100"
  by (simp add: score_violation_risk lookup_nil score_example)
    (simp add: determine_severity_def empty_rule_def severity_by_type_def example_hit_def get_or_def
        spec_base_def spec_type_multiplier_def py_round2_def py_round_def)

lemma example_detect_loop:
  "detect_loop (Some ''S1'') [] example_fresh 0 example_hits =
     [score_violation (Some ''S1'') [] (example_hit ''audit_logging'' None) (example_fresh 0),
      score_violation (Some ''S1'') [] (example_hit ''consent'' None) (example_fresh 2),
      score_violation (Some ''S1'') [] (example_hit ''data_access'' (Some 10)) (example_fresh 3),
      score_violation (Some ''S1'') [] (example_hit ''notification'' None) (example_fresh 4)]"
  by (simp add: example_hits_def example_hit_def scan_error_def eval_nat_numeral)

lemma example_detect:
  "fst (detect example_engine example_fresh example_scan []) =
     [score_violation (Some ''S1'') [] (example_hit ''data_access'' (Some 10)) (example_fresh 3),
      score_violation (Some ''S1'') [] (example_hit ''consent'' None) (example_fresh 2),
      score_violation (Some ''S1'') [] (example_hit ''notification'' None) (example_fresh 4),
      score_violation (Some ''S1'') [] (example_hit ''audit_logging'' None) (example_fresh 0)]"
  by (simp add: fst_detect example_scan_def example_detect_loop sort_by_risk_def sort_key_of_def
        ex_risk_audit ex_risk_consent ex_risk_notification ex_risk_access get_or_def)

section \<open>The scanner\<close>

lemma pattern_loop_distinct:
  "distinct applicable \<Longrightarrow> distinct (pattern_loop col patterns applicable)"
  by (induction patterns arbitrary: applicable) simp_all

lemma column_loop_distinct:
  "distinct applicable \<Longrightarrow> distinct (column_loop patterns cols applicable)"
  by (induction cols arbitrary: applicable) (simp_all add: pattern_loop_distinct)

lemma scan_table_concat:
  "scan_table chk table rules columns n =
     concat (map (\<lambda>rule. check_rule_against_table chk table rule columns n) rules)"
  by (induction rules) simp_all

lemma scan_table_append:
  "scan_table chk table (before @ after) columns n =
     scan_table chk table before columns n @ scan_table chk table after columns n"
  by (simp add: scan_table_concat)

lemma table_loop_hits:
  "snd (table_loop chk all_tables schema rules n tables) =
     concat (map (\<lambda>table. scan_table chk table rules (get_or (schema table) []) n)
               (filter (\<lambda>table. table \<in> set all_tables) tables))"
  by (induction tables) (simp_all add: split_beta Let_def)

lemma scan_returns:
  assumes "get_tables conn = Inr all_tables" and "get_full_schema conn = Inr schema"
  shows "\<exists>res. scan conn chk scan_id rules tables n = Inr res
           \<and> sr_potential_violations res =
               concat (map (\<lambda>table. scan_table chk table rules (get_or (schema table) []) n)
                 (filter (\<lambda>table. table \<in> set all_tables)
                    (case tables of None \<Rightarrow> all_tables
                     | Some ts \<Rightarrow> if ts \<noteq> [] then ts else all_tables)))"
  using assms table_loop_hits[of chk all_tables schema rules n]
  by (simp add: scan_def Let_def split_beta)

lemma example_other_not_applicable:
  "find_applicable_columns example_other_rule [''id'', ''ssn''] = []"
  by code_simp

lemma example_encryption_applicable:
  "find_applicable_columns example_encryption_rule [''id'', ''ssn''] = [''ssn'']"
  by code_simp

lemma example_other_no_predicate: "\<not> truthy (rule_sql_condition example_other_rule)"
  by (simp add: example_other_rule_def empty_rule_def truthy_def)

lemma example_encryption_rule_id: "rule_id example_encryption_rule = Some ''R1''"
  by (simp add: example_encryption_rule_def empty_rule_def)

lemma example_dispatch_raises:
  "dispatch raising_checkers ''users'' example_encryption_rule [''id'', ''ssn''] [''ssn''] 1000
     = Inl (Exception ''boom'')"
  by (simp add: dispatch_def raising_checkers_def example_encryption_rule_def empty_rule_def
        get_or_def)

lemma example_other_skipped:
  "check_rule_against_table raising_checkers ''users'' example_other_rule [''id'', ''ssn''] 1000
     = []"
  by (simp add: check_rule_against_table_def example_other_not_applicable
        example_other_no_predicate)

lemma is_plaintext_iff:
  "is_plaintext col val \<longleftrightarrow>
     (contains (lower col) ''ssn'' \<and> length val = 9 \<and> isdigit val)
     \<or> (contains (lower col) ''credit'' \<and> (length val = 15 \<or> length val = 16) \<and> isdigit val)
     \<or> (contains (lower col) ''password'' \<and> length val < 60)"
  by (auto simp: is_plaintext_def)

lemma sample_loop_count_le: "fst (sample_loop col rows) \<le> length rows"
  by (induction rows) (simp_all add: split_beta split: option.splits)

lemma sample_loop_first_match:
  assumes "\<forall>r' \<in> set pre. \<exists>cell. map_of r' col = Some cell \<and> \<not> is_plaintext col (py_str cell)"
      and "map_of r col = Some cell" and "is_plaintext col (py_str cell)"
  shows "sample_loop col (pre @ r # post) = (Suc (length pre), Inr True)"
  using assms by (induction pre) auto

lemma sample_loop_no_match:
  assumes "\<forall>r \<in> set rows. \<exists>cell. map_of r col = Some cell \<and> \<not> is_plaintext col (py_str cell)"
  shows "sample_loop col rows = (length rows, Inr False)"
  using assms by (induction rows) auto

lemma starts_with_append: "starts_with (p @ s) p"
  by (induction p) simp_all

lemma starts_with_contains: "starts_with s p \<Longrightarrow> contains s p"
  by (cases s; cases p) simp_all

lemma contains_append_left: "contains s p \<Longrightarrow> contains (a @ s) p"
  by (induction a) simp_all

lemma contains_middle: "contains (a @ p @ b) p"
  by (intro contains_append_left starts_with_contains starts_with_append)

lemma sql_limit_encryption_query: "sql_limit (encryption_query table col) = Some 10"
  by (simp add: sql_limit_def encryption_query_def is_ascii_digit_def decimal_def Let_def)

lemma sql_not_null_encryption_query: "sql_not_null (encryption_query table col) col"
proof -
  have "encryption_query table col
          = (''SELECT '' @ quoted col @ '' FROM '' @ quoted table @ '' '')
              @ (''WHERE '' @ quoted col @ '' IS NOT NULL'') @ '' LIMIT 10''"
    by (simp add: encryption_query_def)
  then show ?thesis
    unfolding sql_not_null_def by (simp only: contains_middle)
qed

lemma answers_encryption_query:
  assumes "answers_query (encryption_query table col) rows"
  shows "length rows \<le> 10" and "\<forall>r \<in> set rows. map_of r col \<noteq> Some None"
proof -
  show "length rows \<le> 10"
    using assms by (simp add: answers_query_def sql_limit_encryption_query)
  show "\<forall>r \<in> set rows. map_of r col \<noteq> Some None"
  proof
    fix r assume r: "r \<in> set rows"
    show "map_of r col \<noteq> Some None"
    proof
      assume "map_of r col = Some None"
      then have mem: "(col, None) \<in> set r" by (rule map_of_SomeD)
      from assms have "\<forall>r \<in> set rows. \<forall>(c, cell) \<in> set r.
          sql_not_null (encryption_query table col) c \<longrightarrow> cell \<noteq> None"
        by (simp add: answers_query_def)
      with r have "\<forall>(c, cell) \<in> set r.
          sql_not_null (encryption_query table col) c \<longrightarrow> cell \<noteq> None"
        by blast
      with mem have "sql_not_null (encryption_query table col) col \<longrightarrow> (None :: string option) \<noteq> None"
        by fastforce
      then show False by (simp add: sql_not_null_encryption_query)
    qed
  qed
qed

lemma check_data_encryption_concat:
  "check_data_encryption execute_query table rule columns =
     concat (map (check_encryption_column execute_query table rule) columns)"
  by (induction columns) simp_all

lemma check_encryption_column_cases:
  "check_encryption_column execute_query table rule col = []
   \<or> check_encryption_column execute_query table rule col = [encryption_hit table rule col]"
  by (simp add: check_encryption_column_def split: sum.splits)

lemma check_data_encryption_filter:
  "check_data_encryption execute_query table rule columns =
     map (encryption_hit table rule)
       (filter (\<lambda>col. check_encryption_column execute_query table rule col \<noteq> []) columns)"
proof (induction columns)
  case Nil
  then show ?case by simp
next
  case (Cons col columns)
  then show ?case
    using check_encryption_column_cases[of execute_query table rule col] by auto
qed

lemma encryption_hit_fields:
  "pv_type (encryption_hit table rule col) = Some ''data_encryption''"
  "pv_table (encryption_hit table rule col) = Some table"
  "pv_column (encryption_hit table rule col) = Some col"
  "pv_rule_id (encryption_hit table rule col) = rule_id rule"
  by (simp_all add: encryption_hit_def)

lemma distinct_count_le_1: "distinct xs \<Longrightarrow> length (filter (\<lambda>x. x = c \<and> P x) xs) \<le> 1"
  by (induction xs) (auto simp: filter_empty_conv)

lemma hits_per_column:
  assumes "distinct columns"
  shows "length (filter (\<lambda>h. pv_column h = Some col)
                   (check_data_encryption execute_query table rule columns)) \<le> 1"
proof -
  have "filter (\<lambda>h. pv_column h = Some col)
          (check_data_encryption execute_query table rule columns)
        = map (encryption_hit table rule)
            (filter (\<lambda>c. c = col \<and> check_encryption_column execute_query table rule c \<noteq> [])
               columns)"
    by (simp add: check_data_encryption_filter filter_map comp_def encryption_hit_fields
          conj_commute)
  then show ?thesis using distinct_count_le_1[OF assms] by simp
qed

lemma example_first_plaintext: "is_plaintext ''ssn'' ''123456789''"
  by code_simp

lemma example_backend_rows:
  "example_backend (encryption_query ''users'' ''ssn'')
     = Inr ([] @ [(''ssn'', Some ''123456789'')]
              # [ [(''ssn'', Some ''987654321'')], [(''ssn'', Some ''n/a'')] ])"
  by (simp add: example_backend_def example_rows_def)

lemma example_rows_answer: "answers_query (encryption_query ''users'' ''ssn'') example_rows"
  by (simp add: answers_query_def sql_limit_encryption_query example_rows_def)

section \<open>Claims about the violation scorer\<close>

text \<open>
  C1. The risk score that \<open>_calculate_risk_score\<close> returns for a violation record is
  the formula of the specification, \<open>min(100, round(base(s) * typeMultiplier(t) *
  (1 + log10(max(n, 1)) * 0.1), 2))\<close>, at the record's severity \<open>s\<close> (\<open>medium\<close> when
  absent), rule type \<open>t\<close> (\<open>other\<close> when absent) and hit count \<open>n\<close> (1 when absent), with
  the base and multiplier tables of the specification. The code caps before it rounds,
  the formula rounds before it caps; the two agree. Floats are read as reals.
\<close>

theorem risk_score_formula:
  "calculate_risk_score v =
     spec_risk_score (get_or (v_severity v) ''medium'') (get_or (v_rule_type v) ''other'')
       (get_or (v_violation_count v) 1)"
  by (simp only: calculate_risk_score_raw py_round2_min spec_risk_score_def raw_score_def)

theorem risk_score_formula_witness:
  "calculate_risk_score (example_violation ''medium'' ''consent'' 10) = 66"
  using risk_score_formula[of "example_violation ''medium'' ''consent'' 10"]
  by (simp add: example_violation_fields get_or_Some spec_risk_score_def spec_base_def
        spec_type_multiplier_def py_round2_def py_round_def)

text \<open>
  C7. For a fixed severity and rule type and hit counts \<open>n1 \<le> n2\<close>, the risk score lies
  in [0, 100] at both counts and the score at \<open>n2\<close> is at least the score at \<open>n1\<close>.
\<close>

theorem risk_score_in_range_and_monotone:
  assumes "n1 \<le> n2"
  shows "0 \<le> calculate_risk_score (v\<lparr>v_violation_count := Some n1\<rparr>)
       \<and> calculate_risk_score (v\<lparr>v_violation_count := Some n1\<rparr>)
           \<le> calculate_risk_score (v\<lparr>v_violation_count := Some n2\<rparr>)
       \<and> calculate_risk_score (v\<lparr>v_violation_count := Some n2\<rparr>) \<le> 100"
proof -
  let ?v1 = "v\<lparr>v_violation_count := Some n1\<rparr>" and ?v2 = "v\<lparr>v_violation_count := Some n2\<rparr>"
  have "min (raw_score ?v1) 100 \<le> min (raw_score ?v2) 100"
    using raw_score_mono[OF assms, of v] by simp
  then have "calculate_risk_score ?v1 \<le> calculate_risk_score ?v2"
    by (simp only: calculate_risk_score_raw py_round2_mono)
  moreover have "0 \<le> calculate_risk_score ?v1" using risk_score_bounds[of ?v1] by simp
  moreover have "calculate_risk_score ?v2 \<le> 100" using risk_score_bounds[of ?v2] by simp
  ultimately show ?thesis by simp
qed

theorem risk_score_in_range_and_monotone_witness:
  "(1::int) \<le> 10
   \<and> 0 \<le> calculate_risk_score
            ((example_violation ''medium'' ''consent'' 0)\<lparr>v_violation_count := Some 1\<rparr>)
   \<and> calculate_risk_score
        ((example_violation ''medium'' ''consent'' 0)\<lparr>v_violation_count := Some 1\<rparr>)
       \<le> calculate_risk_score
            ((example_violation ''medium'' ''consent'' 0)\<lparr>v_violation_count := Some 10\<rparr>)
   \<and> calculate_risk_score
        ((example_violation ''medium'' ''consent'' 0)\<lparr>v_violation_count := Some 10\<rparr>)
       \<le> 100"
  using risk_score_in_range_and_monotone[of 1 10 "example_violation ''medium'' ''consent'' 0"]
  by simp

text \<open>
  C2, amended. A declared severity that is not empty is returned as it is. With no
  declared severity, or an empty one, the type of the hit decides: \<open>data_encryption\<close>
  and \<open>age_restriction\<close> give \<open>critical\<close> above 100 hits (an absent count being 1) and
  \<open>high\<close> otherwise; \<open>data_retention\<close>, \<open>data_access\<close> and \<open>geographic_restriction\<close>
  give \<open>high\<close>; \<open>consent\<close>, \<open>data_masking\<close> and \<open>notification\<close> give \<open>medium\<close>;
  \<open>audit_logging\<close> gives \<open>low\<close>; anything else gives \<open>medium\<close>.
\<close>

theorem severity_resolution:
  "(rule_severity rule = Some s \<and> s \<noteq> [] \<longrightarrow> determine_severity pv rule = s)
   \<and> (\<not> truthy (rule_severity rule) \<longrightarrow>
        (get_or (pv_type pv) [] \<in> {''data_encryption'', ''age_restriction''} \<longrightarrow>
           determine_severity pv rule =
             (if get_or (pv_violation_count pv) 1 > 100 then ''critical'' else ''high''))
      \<and> (get_or (pv_type pv) [] \<in> {''data_retention'', ''data_access'', ''geographic_restriction''} \<longrightarrow>
           determine_severity pv rule = ''high'')
      \<and> (get_or (pv_type pv) [] \<in> {''consent'', ''data_masking'', ''notification''} \<longrightarrow>
           determine_severity pv rule = ''medium'')
      \<and> (get_or (pv_type pv) [] = ''audit_logging'' \<longrightarrow> determine_severity pv rule = ''low'')
      \<and> (get_or (pv_type pv) [] \<notin> {''data_encryption'', ''age_restriction'', ''data_retention'',
             ''data_access'', ''geographic_restriction'', ''consent'', ''data_masking'',
             ''notification'', ''audit_logging''} \<longrightarrow> determine_severity pv rule = ''medium''))"
proof -
  have a: "rule_severity rule = Some s \<and> s \<noteq> [] \<longrightarrow> determine_severity pv rule = s"
    by (simp add: determine_severity_def)
  have b: "\<not> truthy (rule_severity rule) \<Longrightarrow> determine_severity pv rule = severity_by_type pv"
    by (simp add: determine_severity_def truthy_def split: option.splits)
  show ?thesis
    using a b by (auto simp: severity_by_type_def Let_def)
qed

theorem severity_resolution_witness:
  "determine_severity (example_hit ''data_encryption'' (Some 150))
     (empty_rule\<lparr>rule_severity := Some ''low''\<rparr>) = ''low''
   \<and> determine_severity (example_hit ''data_encryption'' (Some 150)) empty_rule = ''critical''
   \<and> determine_severity (example_hit ''data_encryption'' (Some 10)) empty_rule = ''high''
   \<and> determine_severity (example_hit ''data_access'' None) empty_rule = ''high''
   \<and> determine_severity (example_hit ''consent'' None) empty_rule = ''medium''
   \<and> determine_severity (example_hit ''audit_logging'' None) empty_rule = ''low''
   \<and> determine_severity (example_hit ''custom'' None) empty_rule = ''medium''"
  using severity_resolution[of "empty_rule\<lparr>rule_severity := Some ''low''\<rparr>" "''low''"
          "example_hit ''data_encryption'' (Some 150)"]
        severity_resolution[of empty_rule "''x''" "example_hit ''data_encryption'' (Some 150)"]
        severity_resolution[of empty_rule "''x''" "example_hit ''data_encryption'' (Some 10)"]
        severity_resolution[of empty_rule "''x''" "example_hit ''data_access'' None"]
        severity_resolution[of empty_rule "''x''" "example_hit ''consent'' None"]
        severity_resolution[of empty_rule "''x''" "example_hit ''audit_logging'' None"]
        severity_resolution[of empty_rule "''x''" "example_hit ''custom'' None"]
  by (simp add: empty_rule_def truthy_def example_hit_def get_or_def)

text \<open>
  C2 as stated fails for a rule whose declared severity is the empty string: the
  severity is present, yet the audit-logging hit resolves to \<open>low\<close>, not to it.
\<close>

theorem severity_empty_declared_counterexample:
  "rule_severity (empty_rule\<lparr>rule_severity := Some []\<rparr>) = Some []
   \<and> determine_severity (example_hit ''audit_logging'' None)
        (empty_rule\<lparr>rule_severity := Some []\<rparr>) = ''low''"
  by (simp add: determine_severity_def severity_by_type_def empty_rule_def example_hit_def
        get_or_def)

text \<open>
  C3. The violations \<open>detect\<close> returns are, up to their order, the hits that are not
  of type \<open>scan_error\<close>, each scored once with the stamp drawn at its position; a
  \<open>scan_error\<close> entry gives none. Hence the violations and the \<open>scan_error\<close> entries
  together are as many as the hits of the scan result.
\<close>

theorem detect_one_violation_per_hit:
  "mset (fst (detect eng fresh sr rules)) =
     mset (map (\<lambda>(i, pv). score_violation (sr_scan_id sr) rules pv (fresh i))
            (filter (\<lambda>(i, pv). pv_type pv \<noteq> Some ''scan_error'')
               (enumerate 0 (sr_potential_violations sr))))
   \<and> length (fst (detect eng fresh sr rules))
       + length (filter (\<lambda>pv. pv_type pv = Some ''scan_error'') (sr_potential_violations sr))
       = length (sr_potential_violations sr)"
proof -
  have "length (fst (detect eng fresh sr rules)) =
          length (filter (\<lambda>pv. pv_type pv \<noteq> Some ''scan_error'') (sr_potential_violations sr))"
    by (simp add: fst_detect sort_by_risk_def length_detect_loop)
  moreover have "length (filter (\<lambda>pv. pv_type pv \<noteq> Some ''scan_error'') (sr_potential_violations sr))
      + length (filter (\<lambda>pv. pv_type pv = Some ''scan_error'') (sr_potential_violations sr))
      = length (sr_potential_violations sr)"
    using sum_length_filter_compl[of "\<lambda>pv. pv_type pv = Some ''scan_error''" "sr_potential_violations sr"]
    by simp
  ultimately show ?thesis
    by (simp add: fst_detect sort_by_risk_def detect_loop_enumerate)
qed

theorem detect_one_violation_per_hit_witness:
  "length (sr_potential_violations example_scan) = 5
   \<and> length (filter (\<lambda>pv. pv_type pv = Some ''scan_error'')
               (sr_potential_violations example_scan)) = 1
   \<and> length (fst (detect example_engine example_fresh example_scan [])) = 4"
  using detect_one_violation_per_hit[of example_engine example_fresh example_scan "[]"]
  by (simp add: example_scan_def example_hits_def example_hit_def scan_error_def)

text \<open>
  C8. The list \<open>detect\<close> returns is in descending order of the sort key, the sort key
  of each returned violation is its risk score, and the violations of any one score keep
  the order in which the loop built them.
\<close>

theorem detect_sorted_stable:
  "sorted_wrt (\<lambda>a b. sort_key_of a \<ge> sort_key_of b) (fst (detect eng fresh sr rules))
   \<and> (\<forall>v \<in> set (fst (detect eng fresh sr rules)). v_risk_score v = Some (sort_key_of v))
   \<and> (\<forall>k. filter (\<lambda>v. sort_key_of v = k) (fst (detect eng fresh sr rules))
           = filter (\<lambda>v. sort_key_of v = k)
               (detect_loop (sr_scan_id sr) rules fresh 0 (sr_potential_violations sr)))"
proof -
  let ?xs = "detect_loop (sr_scan_id sr) rules fresh 0 (sr_potential_violations sr)"
  have "sorted (map (\<lambda>v. - sort_key_of v) (sort_by_risk ?xs))"
    by (simp add: sort_by_risk_def)
  then have a: "sorted_wrt (\<lambda>a b. sort_key_of a \<ge> sort_key_of b) (sort_by_risk ?xs)"
    by (simp add: sorted_map)
  have b: "\<forall>v \<in> set (sort_by_risk ?xs). v_risk_score v = Some (sort_key_of v)"
  proof
    fix v assume "v \<in> set (sort_by_risk ?xs)"
    then have "v \<in> set ?xs" by (simp add: set_sort_by_risk)
    then obtain r where "v_risk_score v = Some r"
      using detect_loop_risk_bounds[of "sr_scan_id sr" rules fresh 0 "sr_potential_violations sr"]
      by blast
    then show "v_risk_score v = Some (sort_key_of v)"
      by (simp add: sort_key_of_def get_or_def)
  qed
  have c: "filter (\<lambda>v. sort_key_of v = k) (sort_by_risk ?xs) = filter (\<lambda>v. sort_key_of v = k) ?xs" for k
    using sort_key_stable[of "\<lambda>v. - sort_key_of v" "- k" ?xs]
    by (simp add: sort_by_risk_def)
  show ?thesis using a b c by (simp add: fst_detect)
qed

theorem detect_sorted_stable_witness:
  "map sort_key_of (fst (detect example_engine example_fresh example_scan []))
     = [100, 60, 60, 25]
   \<and> sorted_wrt (\<lambda>a b. sort_key_of a \<ge> sort_key_of b)
        (fst (detect example_engine example_fresh example_scan []))
   \<and> filter (\<lambda>v. sort_key_of v = 60)
        (fst (detect example_engine example_fresh example_scan []))
       = [score_violation (Some ''S1'') [] (example_hit ''consent'' None) (example_fresh 2),
          score_violation (Some ''S1'') [] (example_hit ''notification'' None)
            (example_fresh 4)]"
  using detect_sorted_stable[of example_engine example_fresh example_scan "[]"]
  by (simp add: example_detect sort_key_of_def get_or_def
        ex_risk_audit ex_risk_consent ex_risk_notification ex_risk_access)

text \<open>
  C10. Every violation that \<open>detect\<close> builds, whatever the severity string, the rule
  type and the hit count of its hit (an absent count being 1), has a risk score, and the
  score is at least 25 and at most 100: the base weight is at least 25, the multiplier
  and the count factor are at least 1. The first conjunct is the loop body for one hit,
  the second the list \<open>detect\<close> returns.
\<close>

theorem risk_score_at_least_25:
  "(\<exists>r. v_risk_score (score_violation sid rules pv stamp) = Some r \<and> 25 \<le> r \<and> r \<le> 100)
   \<and> (\<forall>v \<in> set (fst (detect eng fresh sr rules)).
         \<exists>r. v_risk_score v = Some r \<and> 25 \<le> r \<and> r \<le> 100)"
  using score_violation_risk_bounds detect_loop_risk_bounds
  by (simp add: fst_detect set_sort_by_risk)

theorem risk_score_at_least_25_witness:
  "score_violation (Some ''S1'') [] (example_hit ''audit_logging'' None) (example_fresh 0)
     \<in> set (fst (detect example_engine example_fresh example_scan []))
   \<and> v_risk_score (score_violation (Some ''S1'') [] (example_hit ''audit_logging'' None)
                      (example_fresh 0)) = Some 25
   \<and> (\<exists>r. v_risk_score (score_violation (Some ''S1'') [] (example_hit ''audit_logging'' None)
                           (example_fresh 0)) = Some r \<and> 25 \<le> r \<and> r \<le> 100)"
  using risk_score_at_least_25[of "Some ''S1''" "[]" "example_hit ''audit_logging'' None"
          "example_fresh 0" example_engine example_fresh example_scan]
  by (simp add: example_detect ex_risk_audit)

section \<open>Claims about the scanner\<close>

text \<open>
  C4. The column matcher is to return each column at most once. The loop over the
  entity hints appends without looking at what is already there, unlike the loop over
  the keyword patterns (\<open>column_loop_distinct\<close>): a qualified and an unqualified hint
  for the same column put it in the result twice.
\<close>

theorem find_applicable_columns_duplicates:
  "find_applicable_columns (empty_rule\<lparr>rule_entities := Some [''users.email'', ''email'']\<rparr>)
     [''id'', ''email''] = [''email'', ''email'']"
  by code_simp

text \<open>
  C5. When the column matcher finds no column for a rule and the rule has no raw
  predicate (\<open>sql_condition\<close> absent or empty), \<open>_check_rule_against_table\<close> returns no
  entry for the pair, whatever the checkers would do, raising included: none is called.
\<close>

theorem not_applicable_rule_skipped:
  assumes "find_applicable_columns rule columns = []"
      and "\<not> truthy (rule_sql_condition rule)"
  shows "check_rule_against_table chk table rule columns n = []"
  using assms by (simp add: check_rule_against_table_def)

theorem not_applicable_rule_skipped_witness:
  "find_applicable_columns example_other_rule [''id'', ''ssn''] = []
   \<and> \<not> truthy (rule_sql_condition example_other_rule)
   \<and> check_rule_against_table raising_checkers ''users'' example_other_rule
        [''id'', ''ssn''] 1000 = []"
  using not_applicable_rule_skipped[of example_other_rule "[''id'', ''ssn'']"
          raising_checkers "''users''" 1000]
  by (simp add: example_other_not_applicable example_other_no_predicate)

text \<open>
  C6. When the checker dispatched for a (table, rule) pair raises, the pair gives the
  single entry of type \<open>scan_error\<close> with the table name and the rule id; the rules
  before and after it on the table give what they give without it; and \<open>scan\<close>, once
  the connector has answered, returns a result holding the entries of every pair of a
  known table and a rule, in order, whatever the checkers do.
\<close>

theorem checker_exception_isolated:
  assumes "find_applicable_columns rule columns \<noteq> [] \<or> truthy (rule_sql_condition rule)"
      and "dispatch chk table rule columns (find_applicable_columns rule columns) n = Inl e"
  shows "check_rule_against_table chk table rule columns n = [scan_error table rule e]
       \<and> pv_type (scan_error table rule e) = Some ''scan_error''
       \<and> pv_table (scan_error table rule e) = Some table
       \<and> pv_rule_id (scan_error table rule e) = rule_id rule
       \<and> scan_table chk table (before @ rule # after) columns n
           = scan_table chk table before columns n @ [scan_error table rule e]
               @ scan_table chk table after columns n
       \<and> (get_tables conn = Inr all_tables \<and> get_full_schema conn = Inr schema \<longrightarrow>
            (\<exists>res. scan conn chk scan_id rules tables n' = Inr res
               \<and> sr_potential_violations res =
                   concat (map (\<lambda>t. concat (map (\<lambda>r. check_rule_against_table chk t r
                                                        (get_or (schema t) []) n') rules))
                     (filter (\<lambda>t. t \<in> set all_tables)
                        (case tables of None \<Rightarrow> all_tables
                         | Some ts \<Rightarrow> if ts \<noteq> [] then ts else all_tables)))))"
proof -
  have one: "check_rule_against_table chk table rule columns n = [scan_error table rule e]"
    using assms by (auto simp: check_rule_against_table_def Let_def)
  have fields: "pv_type (scan_error table rule e) = Some ''scan_error''
      \<and> pv_table (scan_error table rule e) = Some table
      \<and> pv_rule_id (scan_error table rule e) = rule_id rule"
    by (simp add: scan_error_def)
  have rest: "scan_table chk table (before @ rule # after) columns n
      = scan_table chk table before columns n @ [scan_error table rule e]
          @ scan_table chk table after columns n"
    using one by (simp add: scan_table_append)
  have total: "get_tables conn = Inr all_tables \<and> get_full_schema conn = Inr schema \<longrightarrow>
            (\<exists>res. scan conn chk scan_id rules tables n' = Inr res
               \<and> sr_potential_violations res =
                   concat (map (\<lambda>t. concat (map (\<lambda>r. check_rule_against_table chk t r
                                                        (get_or (schema t) []) n') rules))
                     (filter (\<lambda>t. t \<in> set all_tables)
                        (case tables of None \<Rightarrow> all_tables
                         | Some ts \<Rightarrow> if ts \<noteq> [] then ts else all_tables))))"
    using scan_returns[of conn all_tables schema chk scan_id rules tables n']
    by (simp add: scan_table_concat)
  show ?thesis using one fields rest total by blast
qed

theorem checker_exception_isolated_witness:
  "check_rule_against_table raising_checkers ''users'' example_encryption_rule
     [''id'', ''ssn''] 1000
     = [scan_error ''users'' example_encryption_rule (Exception ''boom'')]
   \<and> pv_rule_id (scan_error ''users'' example_encryption_rule (Exception ''boom''))
       = Some ''R1''
   \<and> scan_table raising_checkers ''users''
        [example_other_rule, example_encryption_rule, example_other_rule] [''id'', ''ssn''] 1000
       = [scan_error ''users'' example_encryption_rule (Exception ''boom'')]
   \<and> (\<exists>res. scan example_connector raising_checkers ''S1''
               [example_other_rule, example_encryption_rule] None 1000 = Inr res
          \<and> sr_potential_violations res
              = [scan_error ''users'' example_encryption_rule (Exception ''boom'')])"
proof -
  have a: "find_applicable_columns example_encryption_rule [''id'', ''ssn''] \<noteq> []
           \<or> truthy (rule_sql_condition example_encryption_rule)"
    by (simp add: example_encryption_applicable)
  have b: "dispatch raising_checkers ''users'' example_encryption_rule [''id'', ''ssn'']
             (find_applicable_columns example_encryption_rule [''id'', ''ssn'']) 1000
           = Inl (Exception ''boom'')"
    by (simp add: example_encryption_applicable example_dispatch_raises)
  have c: "get_tables example_connector = Inr [''users'']
           \<and> get_full_schema example_connector = Inr [''users'' \<mapsto> [''id'', ''ssn''] ]"
    by (simp add: example_connector_def)
  show ?thesis
    using checker_exception_isolated[OF a b, of "[example_other_rule]" "[example_other_rule]"
            example_connector "[''users'']" "[''users'' \<mapsto> [''id'', ''ssn''] ]" "''S1''"
            "[example_other_rule, example_encryption_rule]" None 1000] c
    by (auto simp: example_other_skipped example_encryption_rule_id get_or_def)
qed

text \<open>
  C9, amended. A value counts as plaintext exactly when the lower-cased column name
  contains \<open>ssn\<close> and the value is nine digits, or the name contains \<open>credit\<close> and the
  value is fifteen or sixteen digits, or the name contains \<open>password\<close> and the value is
  shorter than sixty characters. The query sent for a column ends in \<open>LIMIT 10\<close> and
  demands the column to be non-null; when the rows returned are an answer to that text,
  the loop looks at no more than ten of them and none holds \<open>NULL\<close> in the column. At the
  first plaintext value, after \<open>pre\<close> rows without one, the loop has looked at
  \<open>length pre + 1\<close> rows and the column gives exactly one hit, of type
  \<open>data_encryption\<close> with the table, the column and the rule id; with no plaintext value
  the column gives none. The checker's result is the hits of its columns in order, and
  for a column list without repetition no column has more than one hit.
\<close>

theorem encryption_first_match_flags_once:
  "(is_plaintext col val \<longleftrightarrow>
      (contains (lower col) ''ssn'' \<and> length val = 9 \<and> isdigit val)
      \<or> (contains (lower col) ''credit'' \<and> (length val = 15 \<or> length val = 16) \<and> isdigit val)
      \<or> (contains (lower col) ''password'' \<and> length val < 60))
   \<and> sql_limit (encryption_query table col) = Some 10
   \<and> sql_not_null (encryption_query table col) col
   \<and> (execute_query (encryption_query table col) = Inr rows
        \<and> answers_query (encryption_query table col) rows \<longrightarrow>
        fst (sample_loop col rows) \<le> 10 \<and> (\<forall>r' \<in> set rows. map_of r' col \<noteq> Some None))
   \<and> (execute_query (encryption_query table col) = Inr (pre @ r # post)
        \<and> (\<forall>r' \<in> set pre. \<exists>cell. map_of r' col = Some cell
                                \<and> \<not> is_plaintext col (py_str cell))
        \<and> map_of r col = Some cell' \<and> is_plaintext col (py_str cell') \<longrightarrow>
        sample_loop col (pre @ r # post) = (Suc (length pre), Inr True)
        \<and> check_encryption_column execute_query table rule col
            = [encryption_hit table rule col])
   \<and> (execute_query (encryption_query table col) = Inr rows
        \<and> (\<forall>r' \<in> set rows. \<exists>cell. map_of r' col = Some cell
                                 \<and> \<not> is_plaintext col (py_str cell)) \<longrightarrow>
        sample_loop col rows = (length rows, Inr False)
        \<and> check_encryption_column execute_query table rule col = [])
   \<and> pv_type (encryption_hit table rule col) = Some ''data_encryption''
   \<and> pv_table (encryption_hit table rule col) = Some table
   \<and> pv_column (encryption_hit table rule col) = Some col
   \<and> pv_rule_id (encryption_hit table rule col) = rule_id rule
   \<and> check_data_encryption execute_query table rule columns
       = concat (map (check_encryption_column execute_query table rule) columns)
   \<and> (distinct columns \<longrightarrow>
        length (filter (\<lambda>h. pv_column h = Some col)
                  (check_data_encryption execute_query table rule columns)) \<le> 1)"
proof -
  have a: "execute_query (encryption_query table col) = Inr rows
        \<and> answers_query (encryption_query table col) rows \<longrightarrow>
        fst (sample_loop col rows) \<le> 10 \<and> (\<forall>r' \<in> set rows. map_of r' col \<noteq> Some None)"
  proof (intro impI)
    assume h: "execute_query (encryption_query table col) = Inr rows
        \<and> answers_query (encryption_query table col) rows"
    then have "length rows \<le> 10" and n: "\<forall>r' \<in> set rows. map_of r' col \<noteq> Some None"
      using answers_encryption_query[of table col rows] by simp_all
    then have "fst (sample_loop col rows) \<le> 10"
      using sample_loop_count_le[of col rows] by linarith
    with n show "fst (sample_loop col rows) \<le> 10
        \<and> (\<forall>r' \<in> set rows. map_of r' col \<noteq> Some None)" by simp
  qed
  have b: "execute_query (encryption_query table col) = Inr (pre @ r # post)
        \<and> (\<forall>r' \<in> set pre. \<exists>cell. map_of r' col = Some cell
                                \<and> \<not> is_plaintext col (py_str cell))
        \<and> map_of r col = Some cell' \<and> is_plaintext col (py_str cell') \<longrightarrow>
        sample_loop col (pre @ r # post) = (Suc (length pre), Inr True)
        \<and> check_encryption_column execute_query table rule col
            = [encryption_hit table rule col]"
    using sample_loop_first_match[of pre col r cell' post]
    by (simp add: check_encryption_column_def)
  have c: "execute_query (encryption_query table col) = Inr rows
        \<and> (\<forall>r' \<in> set rows. \<exists>cell. map_of r' col = Some cell
                                 \<and> \<not> is_plaintext col (py_str cell)) \<longrightarrow>
        sample_loop col rows = (length rows, Inr False)
        \<and> check_encryption_column execute_query table rule col = []"
    using sample_loop_no_match[of rows col]
    by (simp add: check_encryption_column_def)
  have d: "distinct columns \<longrightarrow>
        length (filter (\<lambda>h. pv_column h = Some col)
                  (check_data_encryption execute_query table rule columns)) \<le> 1"
    using hits_per_column[of columns col execute_query table rule] by simp
  show ?thesis
    using is_plaintext_iff[of col val] sql_limit_encryption_query[of table col]
      sql_not_null_encryption_query[of table col] a b c d
      encryption_hit_fields[of table rule col]
      check_data_encryption_concat[of execute_query table rule columns]
    by blast
qed

theorem encryption_first_match_flags_once_witness:
  "example_backend (encryption_query ''users'' ''ssn'') = Inr example_rows
   \<and> answers_query (encryption_query ''users'' ''ssn'') example_rows
   \<and> length example_rows = 3
   \<and> is_plaintext ''ssn'' ''123456789''
   \<and> sample_loop ''ssn'' example_rows = (1, Inr True)
   \<and> distinct [''ssn'']
   \<and> check_data_encryption example_backend ''users'' example_encryption_rule [''ssn'']
       = [encryption_hit ''users'' example_encryption_rule ''ssn'']"
  using encryption_first_match_flags_once[of "''ssn''" "''123456789''" "''users''"
          example_backend example_rows "[]" "[(''ssn'', Some ''123456789'')]"
          "[ [(''ssn'', Some ''987654321'')], [(''ssn'', Some ''n/a'')] ]" "Some ''123456789''"
          example_encryption_rule "[''ssn'']"]
        example_first_plaintext example_backend_rows example_rows_answer
  by (simp add: example_rows_def py_str_def)

text \<open>
  C9 as stated fails on the name tests. A column named \<open>id\<close> holding a nine-digit value
  is not flagged, the test being for \<open>ssn\<close> in the name; a column named \<open>credit_limit\<close>,
  which names no credit card, is flagged on a fifteen-digit value.
\<close>

theorem encryption_name_tests_counterexample:
  "length ''123456789'' = 9 \<and> isdigit ''123456789''
   \<and> \<not> is_plaintext ''id'' ''123456789''
   \<and> example_id_backend (encryption_query ''users'' ''id'')
       = Inr [ [(''id'', Some ''123456789'')] ]
   \<and> check_data_encryption example_id_backend ''users'' example_encryption_rule [''id''] = []
   \<and> length ''123456789012345'' = 15 \<and> isdigit ''123456789012345''
   \<and> is_plaintext ''credit_limit'' ''123456789012345''"
  by code_simp

end
